theory Spec2Isabelle
  imports Main "HOL-Library.Word" "HOL-Library.Sublist"
begin

section \<open>JavaScript strings and thrown values\<close>

text \<open>
  A JavaScript string is a sequence of UTF-16 code units. String literals of the source
  are written \<open>js ''...''\<close>.
\<close>

type_synonym jsstring = "16 word list"

definition js :: "string \<Rightarrow> jsstring" where
  "js s = map (\<lambda>c. of_nat (of_char c)) s"

text \<open>
  \<open>String.prototype.trim\<close> removes, at both ends, the code units of the ECMAScript
  productions WhiteSpace and LineTerminator.
\<close>

definition isWhiteSpace :: "16 word \<Rightarrow> bool" where
  "isWhiteSpace c \<longleftrightarrow>
     c \<in> set [0x09, 0x0A, 0x0B, 0x0C, 0x0D, 0x20, 0xA0, 0x1680,
               0x2028, 0x2029, 0x202F, 0x205F, 0x3000, 0xFEFF]
     \<or> (0x2000 \<le> c \<and> c \<le> 0x200A)"

definition trim :: "jsstring \<Rightarrow> jsstring" where
  "trim s = rev (dropWhile isWhiteSpace (rev (dropWhile isWhiteSpace s)))"

definition startsWith :: "jsstring \<Rightarrow> jsstring \<Rightarrow> bool" where
  "startsWith s p \<longleftrightarrow> prefix p s"

fun str_includes :: "jsstring \<Rightarrow> jsstring \<Rightarrow> bool" where
  "str_includes [] p \<longleftrightarrow> p = []"
| "str_includes (c # cs) p \<longleftrightarrow> prefix p (c # cs) \<or> str_includes cs p"

definition isQuote :: "16 word \<Rightarrow> bool" where
  "isQuote c \<longleftrightarrow> c = 0x22 \<or> c = 0x27"

text \<open>
  \<open>s.replace(/^["']|["']$/g, '')\<close>: one quote character is removed at the start and one
  at the end. The two matches never overlap, so the second one is looked for in what the
  first one left.
\<close>

definition stripQuotes :: "jsstring \<Rightarrow> jsstring" where
  "stripQuotes s =
     (let s1 = (case s of [] \<Rightarrow> [] | c # cs \<Rightarrow> if isQuote c then cs else s)
      in if s1 \<noteq> [] \<and> isQuote (last s1) then butlast s1 else s1)"

text \<open>
  Every value thrown in this code base is an \<open>Error\<close> object: \<open>new Error(msg)\<close> of the
  source itself, or an error of the ORM and its drivers, which may carry a \<open>code\<close>.
\<close>

record jserror =
  name :: jsstring
  message :: jsstring
  code :: "jsstring option"

definition Error :: "jsstring \<Rightarrow> jserror" where
  "Error msg = \<lparr>name = js ''Error'', message = msg, code = None\<rparr>"

text \<open>\<open>String(error)\<close>, that is \<open>Error.prototype.toString\<close>.\<close>

definition error_toString :: "jserror \<Rightarrow> jsstring" where
  "error_toString e =
     (if name e = [] then message e
      else if message e = [] then name e
      else name e @ js '': '' @ message e)"

section \<open>The process and its collaborators\<close>

record env =
  DATABASE_URL :: "jsstring option"
  NODE_ENV :: "jsstring option"

record poolConfig =
  connectionString :: jsstring
  pool_max :: nat
  idleTimeoutMillis :: nat
  connectionTimeoutMillis :: nat

datatype adapter = PrismaBetterSqlite3 jsstring | PrismaPg poolConfig

text \<open>The options object passed to \<open>new PrismaClient(...)\<close>; a missing key is \<open>None\<close>.\<close>

record PrismaClientOptions =
  adapter :: "adapter option"
  datasources_db_url :: "jsstring option"
  datasourceUrl :: "jsstring option"
  log :: "jsstring list"

text \<open>
  A client handle is an object reference: the index of the object in the heap of
  constructed clients, which records the options each one was constructed with.
  \<open>globalForPrisma_prisma\<close> is the property \<open>globalThis.prisma\<close>.
\<close>

type_synonym PrismaClient = nat

record state =
  globalForPrisma_prisma :: "PrismaClient option"
  heap :: "PrismaClientOptions list"

definition initial_state :: state where
  "initial_state = \<lparr>globalForPrisma_prisma = None, heap = []\<rparr>"

text \<open>
  The parsed form of a URL as far as the source looks at it: the list of its query
  parameters in order (\<open>searchParams\<close>), its query string, and everything else.
\<close>

record URL =
  searchParams :: "(jsstring \<times> jsstring) list"
  query :: "jsstring option"
  other_components :: jsstring

text \<open>
  \<open>Promise.race([query, timer])\<close> settles as the one of the two that settles first.
  When the timer of the handler wins, the query is left running; what it would settle
  to later (\<open>None\<close>: never) is carried along and looked at by nobody.
\<close>

datatype race = QuerySettlesFirst "jserror + unit" | TimerFiresFirst "(jserror + unit) option"

text \<open>
  What the code does not decide itself: the environment variables, and for every library
  call whether it throws (\<open>Some e\<close>) or completes (\<open>None\<close>). \<open>URL_parse\<close> is
  \<open>new URL(s)\<close>, which throws on a string that is not a URL; \<open>urlencoded\<close> is the
  serialiser of a parameter list and \<open>URL_toString\<close> the serialiser of a URL.
  \<open>race_SELECT_1 client ms\<close> tells how the liveness query on \<open>client\<close> fares against a
  timer of \<open>ms\<close> milliseconds; \<open>query_table_exists client\<close> is the outcome of the
  metadata query, one entry per returned row holding its column \<open>exists\<close> when it has
  one; \<open>toISOString_now\<close> is \<open>new Date().toISOString()\<close>.
\<close>

record world =
  process_env :: env
  process_cwd :: jsstring
  path_resolve :: "jsstring \<Rightarrow> jsstring \<Rightarrow> jsstring"
  require :: "jsstring \<Rightarrow> jserror option"
  new_PrismaBetterSqlite3 :: "jsstring \<Rightarrow> jserror option"
  new_Pool :: "poolConfig \<Rightarrow> jserror option"
  new_PrismaPg :: "poolConfig \<Rightarrow> jserror option"
  new_PrismaClient :: "PrismaClientOptions \<Rightarrow> jserror option"
  URL_parse :: "jsstring \<Rightarrow> URL option"
  urlencoded :: "(jsstring \<times> jsstring) list \<Rightarrow> jsstring"
  URL_toString :: "URL \<Rightarrow> jsstring"
  race_SELECT_1 :: "PrismaClient \<Rightarrow> nat \<Rightarrow> race"
  query_table_exists :: "PrismaClient \<Rightarrow> jserror + bool option list"
  toISOString_now :: jsstring

text \<open>\<open>new PrismaClient(options)\<close>: a fresh object, unless the constructor throws.\<close>

definition construct :: "world \<Rightarrow> PrismaClientOptions \<Rightarrow> state \<Rightarrow> (jserror + PrismaClient) \<times> state" where
  "construct w options s =
     (case new_PrismaClient w options of
        Some e \<Rightarrow> (Inl e, s)
      | None \<Rightarrow> (Inr (length (heap s)), s\<lparr>heap := heap s @ [options]\<rparr>))"

section \<open>The lazily initialised provider (getPrismaClient)\<close>

definition log_option :: "world \<Rightarrow> jsstring list" where
  "log_option w =
     (if NODE_ENV (process_env w) = Some (js ''development'')
      then [js ''error'', js ''warn''] else [])"

text \<open>\<open>c\<close> as the case-insensitive pattern character \<open>p\<close> of \<open>/^file:/i\<close> sees it.\<close>

definition toUpperAscii :: "16 word \<Rightarrow> 16 word" where
  "toUpperAscii c = (if 0x61 \<le> c \<and> c \<le> 0x7A then c - 0x20 else c)"

definition sqlite_dbPath :: "jsstring \<Rightarrow> jsstring" where
  "sqlite_dbPath databaseUrl =
     (let p1 = (if map toUpperAscii (take 5 databaseUrl) = js ''FILE:''
                then drop 5 databaseUrl else databaseUrl);
          p2 = dropWhile (\<lambda>c. c = 0x2F) p1;
          p3 = stripQuotes p2
      in if startsWith p3 (js ''./'') then drop 2 p3 else p3)"

definition sqlite_options :: "world \<Rightarrow> jsstring \<Rightarrow> PrismaClientOptions" where
  "sqlite_options w absolutePath =
     \<lparr>adapter = Some (PrismaBetterSqlite3 absolutePath),
      datasources_db_url = None, datasourceUrl = None, log = log_option w\<rparr>"

definition sqlite_try :: "world \<Rightarrow> jsstring \<Rightarrow> state \<Rightarrow> (jserror + PrismaClient) \<times> state" where
  "sqlite_try w databaseUrl s =
     (case require w (js ''@prisma/adapter-better-sqlite3'') of
        Some e \<Rightarrow> (Inl e, s)
      | None \<Rightarrow>
     (case require w (js ''better-sqlite3'') of
        Some e \<Rightarrow> (Inl e, s)
      | None \<Rightarrow>
     (case require w (js ''path'') of
        Some e \<Rightarrow> (Inl e, s)
      | None \<Rightarrow>
     (let absolutePath = path_resolve w (process_cwd w) (sqlite_dbPath databaseUrl) in
     (case new_PrismaBetterSqlite3 w absolutePath of
        Some e \<Rightarrow> (Inl e, s)
      | None \<Rightarrow>
          construct w (sqlite_options w absolutePath) s)))))"

definition sqlite_client :: "world \<Rightarrow> jsstring \<Rightarrow> state \<Rightarrow> (jserror + PrismaClient) \<times> state" where
  "sqlite_client w databaseUrl s =
     (case sqlite_try w databaseUrl s of
        (Inl error, s') \<Rightarrow>
          (Inl (Error (js ''Failed to initialize Prisma with SQLite: '' @
                  (if message error \<noteq> [] then message error else error_toString error))), s')
      | (Inr client, s') \<Rightarrow> (Inr client, s'))"

definition pg_poolConfig :: "jsstring \<Rightarrow> poolConfig" where
  "pg_poolConfig databaseUrl =
     \<lparr>connectionString = databaseUrl, pool_max = 10,
      idleTimeoutMillis = 30000, connectionTimeoutMillis = 10000\<rparr>"

definition postgres_options :: "world \<Rightarrow> jsstring \<Rightarrow> PrismaClientOptions" where
  "postgres_options w databaseUrl =
     \<lparr>adapter = Some (PrismaPg (pg_poolConfig databaseUrl)),
      datasources_db_url = None, datasourceUrl = None, log = log_option w\<rparr>"

definition fallback_options :: "world \<Rightarrow> jsstring \<Rightarrow> PrismaClientOptions" where
  "fallback_options w databaseUrl =
     \<lparr>adapter = None, datasources_db_url = Some databaseUrl,
      datasourceUrl = None, log = log_option w\<rparr>"

definition default_options :: "world \<Rightarrow> PrismaClientOptions" where
  "default_options w =
     \<lparr>adapter = None, datasources_db_url = None, datasourceUrl = None,
      log = log_option w\<rparr>"

definition postgres_try :: "world \<Rightarrow> jsstring \<Rightarrow> state \<Rightarrow> (jserror + PrismaClient) \<times> state" where
  "postgres_try w databaseUrl s =
     (case require w (js ''@prisma/adapter-pg'') of
        Some e \<Rightarrow> (Inl e, s)
      | None \<Rightarrow>
     (case require w (js ''pg'') of
        Some e \<Rightarrow> (Inl e, s)
      | None \<Rightarrow>
     (let poolConfig = pg_poolConfig databaseUrl in
     (case new_Pool w poolConfig of
        Some e \<Rightarrow> (Inl e, s)
      | None \<Rightarrow>
     (case new_PrismaPg w poolConfig of
        Some e \<Rightarrow> (Inl e, s)
      | None \<Rightarrow>
          construct w (postgres_options w databaseUrl) s)))))"

definition postgres_client :: "world \<Rightarrow> jsstring \<Rightarrow> state \<Rightarrow> (jserror + PrismaClient) \<times> state" where
  "postgres_client w databaseUrl s =
     (case postgres_try w databaseUrl s of
        (Inl error, s') \<Rightarrow>
          construct w (fallback_options w databaseUrl) s'
      | (Inr client, s') \<Rightarrow> (Inr client, s'))"

definition default_client :: "world \<Rightarrow> state \<Rightarrow> (jserror + PrismaClient) \<times> state" where
  "default_client w s =
     construct w (default_options w) s"

text \<open>
  The two statements that normalise the connection string. \<open>String(x).trim()\<close> and
  \<open>replace\<close> do not throw on a string, so the \<open>catch\<close> around them is never entered.
\<close>

definition clean :: "jsstring \<Rightarrow> jsstring" where
  "clean rawDatabaseUrl =
     (let databaseUrl = trim rawDatabaseUrl
      in if databaseUrl \<noteq> [] then stripQuotes databaseUrl else databaseUrl)"

definition getPrismaClient :: "world \<Rightarrow> state \<Rightarrow> (jserror + PrismaClient) \<times> state" where
  "getPrismaClient w s =
     (case globalForPrisma_prisma s of
        Some cached \<Rightarrow> (Inr cached, s)
      | None \<Rightarrow>
        (case DATABASE_URL (process_env w) of
           None \<Rightarrow>
             (Inl (Error (js ''DATABASE_URL environment variable is not set. Please add it to your .env file.'')), s)
         | Some rawDatabaseUrl \<Rightarrow>
             if rawDatabaseUrl = [] then
               (Inl (Error (js ''DATABASE_URL environment variable is not set. Please add it to your .env file.'')), s)
             else let databaseUrl = clean rawDatabaseUrl in
               if databaseUrl = [] then
                 (Inl (Error (js ''DATABASE_URL is empty after parsing.'')), s)
               else
                 (case (if startsWith databaseUrl (js ''file:'') then sqlite_client w databaseUrl s
                        else if startsWith databaseUrl (js ''postgresql://'')
                                \<or> startsWith databaseUrl (js ''postgres://'')
                          then postgres_client w databaseUrl s
                        else default_client w s) of
                    (Inl e, s') \<Rightarrow> (Inl e, s')
                  | (Inr client, s') \<Rightarrow>
                      (Inr client, s'\<lparr>globalForPrisma_prisma := Some client\<rparr>))))"

text \<open>
  The \<open>get\<close> trap of the exported proxy: every property read of \<open>prisma\<close> goes through
  \<open>getPrismaClient\<close>, and an error of it is thrown again with context.
\<close>

definition proxy_get :: "world \<Rightarrow> state \<Rightarrow> (jserror + PrismaClient) \<times> state" where
  "proxy_get w s =
     (case getPrismaClient w s of
        (Inl error, s') \<Rightarrow>
          (Inl (Error (js ''Failed to initialize database connection: '' @ message error)), s')
      | (Inr client, s') \<Rightarrow> (Inr client, s'))"

text \<open>A process calls the provider many times, in an environment that may change.\<close>

fun calls :: "world list \<Rightarrow> state \<Rightarrow> (jserror + PrismaClient) list \<times> state" where
  "calls [] s = ([], s)"
| "calls (w # ws) s =
     (case getPrismaClient w s of
        (r, s') \<Rightarrow> (case calls ws s' of (rs, s'') \<Rightarrow> (r # rs, s'')))"

section \<open>The provider for the managed Postgres service (getDatabaseUrl)\<close>

text \<open>The operations of \<open>URLSearchParams\<close> that the source calls, on the parameter list.\<close>

definition searchParams_has :: "(jsstring \<times> jsstring) list \<Rightarrow> jsstring \<Rightarrow> bool" where
  "searchParams_has ps n \<longleftrightarrow> n \<in> set (map fst ps)"

fun searchParams_set :: "(jsstring \<times> jsstring) list \<Rightarrow> jsstring \<Rightarrow> jsstring \<Rightarrow> (jsstring \<times> jsstring) list" where
  "searchParams_set [] n v = [(n, v)]"
| "searchParams_set (p # ps) n v =
     (if fst p = n then (n, v) # filter (\<lambda>q. fst q \<noteq> n) ps
      else p # searchParams_set ps n v)"

definition searchParams_delete :: "(jsstring \<times> jsstring) list \<Rightarrow> jsstring \<Rightarrow> (jsstring \<times> jsstring) list" where
  "searchParams_delete ps n = filter (\<lambda>q. fst q \<noteq> n) ps"

text \<open>A change of the parameter list rewrites the query string of the URL from the list.\<close>

definition update_query :: "world \<Rightarrow> URL \<Rightarrow> (jsstring \<times> jsstring) list \<Rightarrow> URL" where
  "update_query w urlObj ps =
     urlObj\<lparr>searchParams := ps,
            query := (if urlencoded w ps = [] then None else Some (urlencoded w ps))\<rparr>"

text \<open>
  \<open>s.replace(/[&?]channel_binding=[^&]*/g, '')\<close> and
  \<open>s.replace(/channel_binding=[^&]*&?/g, '')\<close>: the string is scanned from the left,
  a match is dropped and the scan goes on behind it.
\<close>

function remove_separated_param :: "jsstring \<Rightarrow> jsstring" where
  "remove_separated_param [] = []"
| "remove_separated_param (c # cs) =
     (if (c = 0x26 \<or> c = 0x3F) \<and> prefix (js ''channel_binding='') cs
      then remove_separated_param (dropWhile (\<lambda>x. x \<noteq> 0x26) (drop 16 cs))
      else c # remove_separated_param cs)"
  by pat_completeness auto
termination
proof (relation "measure length")
  fix c :: "16 word" and cs :: jsstring
  have "length (dropWhile (\<lambda>x. x \<noteq> 0x26) (drop 16 cs)) \<le> length (drop 16 cs)"
    by (rule length_dropWhile_le)
  then show "(dropWhile (\<lambda>x. x \<noteq> 0x26) (drop 16 cs), c # cs) \<in> measure length"
    by simp
qed simp_all

function remove_leading_param :: "jsstring \<Rightarrow> jsstring" where
  "remove_leading_param [] = []"
| "remove_leading_param (c # cs) =
     (if prefix (js ''channel_binding='') (c # cs)
      then remove_leading_param (drop 1 (dropWhile (\<lambda>x. x \<noteq> 0x26) (drop 16 (c # cs))))
      else c # remove_leading_param cs)"
  by pat_completeness auto
termination
proof (relation "measure length")
  fix c :: "16 word" and cs :: jsstring
  have "length (dropWhile (\<lambda>x. x \<noteq> 0x26) (drop 16 (c # cs))) \<le> length (drop 16 (c # cs))"
    by (rule length_dropWhile_le)
  then show "(drop 1 (dropWhile (\<lambda>x. x \<noteq> 0x26) (drop 16 (c # cs))), c # cs) \<in> measure length"
    by simp
qed simp_all

definition getDatabaseUrl :: "world \<Rightarrow> jserror + jsstring" where
  "getDatabaseUrl w =
     (case DATABASE_URL (process_env w) of
        None \<Rightarrow> Inl (Error (js ''DATABASE_URL environment variable is not set''))
      | Some url \<Rightarrow>
          if url = [] then Inl (Error (js ''DATABASE_URL environment variable is not set''))
          else let databaseUrl = trim url in
            (case URL_parse w databaseUrl of
               Some urlObj \<Rightarrow>
                 let u1 = (if \<not> searchParams_has (searchParams urlObj) (js ''sslmode'')
                           then update_query w urlObj
                                  (searchParams_set (searchParams urlObj) (js ''sslmode'') (js ''require''))
                           else urlObj);
                     u2 = (if searchParams_has (searchParams u1) (js ''channel_binding'')
                           then update_query w u1
                                  (searchParams_delete (searchParams u1) (js ''channel_binding''))
                           else u1)
                 in Inr (URL_toString w u2)
             | None \<Rightarrow>
                 Inr (if str_includes databaseUrl (js ''channel_binding'')
                      then remove_leading_param (remove_separated_param databaseUrl)
                      else databaseUrl)))"

definition neon_options :: "world \<Rightarrow> jsstring \<Rightarrow> PrismaClientOptions" where
  "neon_options w url =
     \<lparr>adapter = None, datasources_db_url = None, datasourceUrl = Some url,
      log = (if NODE_ENV (process_env w) = Some (js ''development'')
             then [js ''query'', js ''error'', js ''warn''] else [js ''error''])\<rparr>"

text \<open>
  The statements at the top level of the module, run when the module is first imported:
  the value of the exported constant \<open>prisma\<close>, or the error that ends the import.
\<close>

definition prisma_module :: "world \<Rightarrow> state \<Rightarrow> (jserror + PrismaClient) \<times> state" where
  "prisma_module w s =
     (case globalForPrisma_prisma s of
        Some cached \<Rightarrow> (Inr cached, s)
      | None \<Rightarrow>
        (case getDatabaseUrl w of
           Inl e \<Rightarrow> (Inl e, s)
         | Inr url \<Rightarrow>
             (case construct w (neon_options w url) s of
                (Inl e, s') \<Rightarrow> (Inl e, s')
              | (Inr prisma, s') \<Rightarrow>
                  (Inr prisma, s'\<lparr>globalForPrisma_prisma := Some prisma\<rparr>))))"

section \<open>The health handler (GET)\<close>

record healthy =
  ok_status :: jsstring
  ok_database :: jsstring
  ok_tables_client_users :: jsstring
  ok_environment :: "jsstring option"
  ok_hasDatabaseUrl :: bool
  ok_timestamp :: jsstring

record errorInfo =
  info_status :: jsstring
  info_database :: jsstring
  info_error :: jsstring
  info_code :: jsstring
  info_hasDatabaseUrl :: bool
  info_timestamp :: jsstring
  info_prismaCode :: "jsstring option"
  info_suggestion :: "jsstring option"

datatype json = is_Healthy: Healthy (healthy_of: healthy) | is_Unhealthy: Unhealthy (errorInfo_of: errorInfo)

record response =
  http_status :: nat
  body :: json

text \<open>Truthiness of a property that is a string or undefined.\<close>

definition truthy :: "jsstring option \<Rightarrow> bool" where
  "truthy v \<longleftrightarrow> (case v of None \<Rightarrow> False | Some x \<Rightarrow> x \<noteq> [])"

definition Promise_race :: "race \<Rightarrow> jserror + unit" where
  "Promise_race r =
     (case r of
        QuerySettlesFirst outcome \<Rightarrow> outcome
      | TimerFiresFirst later \<Rightarrow> Inl (Error (js ''Connection timeout'')))"

text \<open>
  The handler reads the imported binding \<open>prisma\<close> twice, as \<open>prisma.$queryRaw\<close>. What a
  read does depends on the module behind the import: a client object gives itself, the
  proxy of the lazy provider runs \<open>proxy_get\<close>.
\<close>

type_synonym binding = "state \<Rightarrow> (jserror + PrismaClient) \<times> state"

definition client_binding :: "PrismaClient \<Rightarrow> binding" where
  "client_binding prisma s = (Inr prisma, s)"

definition GET_try :: "binding \<Rightarrow> world \<Rightarrow> state \<Rightarrow> (jserror + response) \<times> state" where
  "GET_try prisma w s =
     (case prisma s of
        (Inl e, s1) \<Rightarrow> (Inl e, s1)
      | (Inr client, s1) \<Rightarrow>
     (case Promise_race (race_SELECT_1 w client 10000) of
        Inl e \<Rightarrow> (Inl e, s1)
      | Inr connected \<Rightarrow>
     (case prisma s1 of
        (Inl e, s2) \<Rightarrow> (Inl e, s2)
      | (Inr client2, s2) \<Rightarrow>
     (case query_table_exists w client2 of
        Inl e \<Rightarrow> (Inl e, s2)
      | Inr tableExists \<Rightarrow>
          (let exists = (case tableExists of
                           [] \<Rightarrow> False
                         | row # rows \<Rightarrow> (case row of None \<Rightarrow> False | Some b \<Rightarrow> b))
           in (Inr \<lparr>http_status = 200,
                     body = Healthy
                       \<lparr>ok_status = js ''healthy'',
                        ok_database = js ''connected'',
                        ok_tables_client_users = (if exists then js ''exists'' else js ''missing''),
                        ok_environment = NODE_ENV (process_env w),
                        ok_hasDatabaseUrl = truthy (DATABASE_URL (process_env w)),
                        ok_timestamp = toISOString_now w\<rparr>\<rparr>, s2))))))"

definition GET_catch :: "world \<Rightarrow> jserror \<Rightarrow> response" where
  "GET_catch w error =
     \<lparr>http_status = 503,
      body = Unhealthy
        \<lparr>info_status = js ''unhealthy'',
         info_database = js ''disconnected'',
         info_error = (if message error \<noteq> [] then message error else js ''Unknown error''),
         info_code = (case code error of
                        None \<Rightarrow> js ''UNKNOWN''
                      | Some c \<Rightarrow> if c \<noteq> [] then c else js ''UNKNOWN''),
         info_hasDatabaseUrl = truthy (DATABASE_URL (process_env w)),
         info_timestamp = toISOString_now w,
         info_prismaCode = (if truthy (code error) then code error else None),
         info_suggestion =
           (if truthy (code error) then
              (if code error = Some (js ''P1001'') \<or> code error = Some (js ''P1017'')
               then Some (js ''Check database connection string and network connectivity'')
               else if code error = Some (js ''P1000'')
               then Some (js ''Check database credentials'')
               else None)
            else None)\<rparr>\<rparr>"

text \<open>An \<open>Inl\<close> result of \<open>GET\<close> is an exception that leaves the handler.\<close>

definition GET :: "binding \<Rightarrow> world \<Rightarrow> state \<Rightarrow> (jserror + response) \<times> state" where
  "GET prisma w s =
     (case GET_try prisma w s of
        (Inr r, s') \<Rightarrow> (Inr r, s')
      | (Inl error, s') \<Rightarrow> (Inr (GET_catch w error), s'))"

text \<open>
  A request that reaches the route on a cold start: the route module imports
  \<open>@/lib/prisma\<close>, whose top-level statements run before the handler exists, outside
  its \<open>try\<close>; only then is \<open>GET\<close> called, with the exported client.
\<close>

definition health_request :: "world \<Rightarrow> state \<Rightarrow> (jserror + response) \<times> state" where
  "health_request w s =
     (case prisma_module w s of
        (Inl e, s') \<Rightarrow> (Inl e, s')
      | (Inr prisma, s') \<Rightarrow> GET (client_binding prisma) w s')"

text \<open>The same request when the route imports the lazy provider instead.\<close>

definition health_request_lazy :: "world \<Rightarrow> state \<Rightarrow> (jserror + response) \<times> state" where
  "health_request_lazy w s = GET (proxy_get w) w s"

section \<open>Notions used in the statements\<close>

text \<open>
  The connection string is absent, or empty after normalisation. The empty string is
  covered by the second case: nothing is left of it either.
\<close>

definition connection_string_missing :: "world \<Rightarrow> bool" where
  "connection_string_missing w \<longleftrightarrow>
     (case DATABASE_URL (process_env w) of None \<Rightarrow> True | Some raw \<Rightarrow> clean raw = [])"

text \<open>The two errors of \<open>getPrismaClient\<close> about the configuration.\<close>

definition ConfigurationError :: "jserror \<Rightarrow> bool" where
  "ConfigurationError e \<longleftrightarrow>
     e = Error (js ''DATABASE_URL environment variable is not set. Please add it to your .env file.'')
     \<or> e = Error (js ''DATABASE_URL is empty after parsing.'')"

text \<open>
  The outcome of a call that constructs a client from \<open>options\<close>, stores it in the cache
  and returns it: the client is a new object, and the only change of the state.
\<close>

definition initialised_with :: "PrismaClientOptions \<Rightarrow> state \<Rightarrow> (jserror + PrismaClient) \<times> state" where
  "initialised_with options s =
     (Inr (length (heap s)),
      s\<lparr>heap := heap s @ [options], globalForPrisma_prisma := Some (length (heap s))\<rparr>)"

text \<open>The contents of the cache before the first call and after each call of a run.\<close>

fun cache_trace :: "world list \<Rightarrow> state \<Rightarrow> PrismaClient option list" where
  "cache_trace [] s = [globalForPrisma_prisma s]"
| "cache_trace (w # ws) s = globalForPrisma_prisma s # cache_trace ws (snd (getPrismaClient w s))"

section \<open>A concrete world\<close>

text \<open>
  A world in which every library call completes, the database answers at once and one
  connection string is a URL. It is the base of the concrete runs below.
\<close>

definition neon_url :: jsstring where
  "neon_url = js ''postgresql://u@h/db?channel_binding=require''"

fun example_urlencoded :: "(jsstring \<times> jsstring) list \<Rightarrow> jsstring" where
  "example_urlencoded [] = []"
| "example_urlencoded [p] = fst p @ js ''='' @ snd p"
| "example_urlencoded (p # ps) = fst p @ js ''='' @ snd p @ js ''&'' @ example_urlencoded ps"

definition example_world :: "jsstring option \<Rightarrow> world" where
  "example_world url =
     \<lparr>process_env = \<lparr>DATABASE_URL = url, NODE_ENV = None\<rparr>,
      process_cwd = js ''/app'',
      path_resolve = (\<lambda>dir p. dir @ js ''/'' @ p),
      require = (\<lambda>m. None),
      new_PrismaBetterSqlite3 = (\<lambda>p. None),
      new_Pool = (\<lambda>c. None),
      new_PrismaPg = (\<lambda>c. None),
      new_PrismaClient = (\<lambda>options. None),
      URL_parse = (\<lambda>s. if s = neon_url
                        then Some \<lparr>searchParams = [(js ''channel_binding'', js ''require'')],
                                   query = Some (js ''channel_binding=require''),
                                   other_components = js ''postgresql://u@h/db''\<rparr>
                        else None),
      urlencoded = example_urlencoded,
      URL_toString = (\<lambda>u. other_components u @ (case query u of None \<Rightarrow> [] | Some q \<Rightarrow> js ''?'' @ q)),
      race_SELECT_1 = (\<lambda>client ms. QuerySettlesFirst (Inr ())),
      query_table_exists = (\<lambda>client. Inr [Some True]),
      toISOString_now = js ''2024-01-01T00:00:00.000Z''\<rparr>"

definition pool_fails_world :: world where
  "pool_fails_world =
     (example_world (Some (js ''postgresql://u@h/db'')))
       \<lparr>new_Pool := (\<lambda>c. Some (Error (js ''pool'')))\<rparr>"

definition timeout_world :: world where
  "timeout_world =
     (example_world (Some (js ''postgresql://u@h/db'')))
       \<lparr>race_SELECT_1 := (\<lambda>client ms. TimerFiresFirst (Some (Inr ())))\<rparr>"

definition table_missing_world :: world where
  "table_missing_world =
     (example_world (Some (js ''postgresql://u@h/db'')))
       \<lparr>query_table_exists := (\<lambda>client. Inr [Some False])\<rparr>"

definition connection_closed :: jserror where
  "connection_closed =
     \<lparr>name = js ''PrismaClientKnownRequestError'',
      message = js ''Server has closed the connection.'',
      code = Some (js ''P1017'')\<rparr>"

definition metadata_fails_world :: world where
  "metadata_fails_world =
     (example_world (Some (js ''postgresql://u@h/db'')))
       \<lparr>query_table_exists := (\<lambda>client. Inl connection_closed)\<rparr>"

definition raw_query_failed :: jserror where
  "raw_query_failed =
     \<lparr>name = js ''PrismaClientKnownRequestError'',
      message = js ''Raw query failed.'',
      code = Some (js ''P2010'')\<rparr>"

definition one_client :: state where
  "one_client = \<lparr>globalForPrisma_prisma = Some 0, heap = [default_options (example_world None)]\<rparr>"

text \<open>
  A binding whose first read gives the cached client and forgets it, so that the next
  read throws.
\<close>

definition second_read_fails :: binding where
  "second_read_fails s =
     (case globalForPrisma_prisma s of
        None \<Rightarrow> (Inl (Error (js ''client is gone'')), s)
      | Some client \<Rightarrow> (Inr client, s\<lparr>globalForPrisma_prisma := None\<rparr>))"

section \<open>Facts about the lazily initialised provider\<close>

lemmas string_defs = js_def trim_def isWhiteSpace_def stripQuotes_def isQuote_def clean_def
  startsWith_def

lemmas provider_defs = getPrismaClient_def construct_def sqlite_client_def sqlite_try_def
  postgres_client_def postgres_try_def default_client_def sqlite_options_def postgres_options_def
  fallback_options_def default_options_def pg_poolConfig_def log_option_def sqlite_dbPath_def
  toUpperAscii_def error_toString_def Error_def initialised_with_def initial_state_def
  example_world_def

lemma clean_Nil: "clean [] = []"
  by (simp add: clean_def trim_def)

lemma getPrismaClient_cached:
  "globalForPrisma_prisma s = Some c \<Longrightarrow> getPrismaClient w s = (Inr c, s)"
  by (simp add: getPrismaClient_def)

lemma getPrismaClient_missing:
  assumes "globalForPrisma_prisma s = None" and "connection_string_missing w"
  shows "\<exists>e. getPrismaClient w s = (Inl e, s) \<and> ConfigurationError e"
  using assms
  by (auto simp: getPrismaClient_def connection_string_missing_def ConfigurationError_def
        Let_def clean_Nil split: option.splits)

lemma getPrismaClient_success_cached:
  "getPrismaClient w s = (Inr c, s') \<Longrightarrow> globalForPrisma_prisma s' = Some c"
  by (auto simp: getPrismaClient_def Let_def split: option.splits if_splits prod.splits sum.splits)

lemma calls_cached:
  "globalForPrisma_prisma s = Some c \<Longrightarrow> calls ws s = (replicate (length ws) (Inr c), s)"
  by (induction ws) (simp_all add: getPrismaClient_cached)

lemma cache_trace_cached:
  "globalForPrisma_prisma s = Some c \<Longrightarrow> set (cache_trace ws s) = {Some c}"
  by (induction ws) (simp_all add: getPrismaClient_cached)

lemma cache_trace_unique:
  "Some a \<in> set (cache_trace ws s) \<Longrightarrow> Some b \<in> set (cache_trace ws s) \<Longrightarrow> a = b"
proof (induction ws arbitrary: s)
  case Nil
  then have "globalForPrisma_prisma s = Some a" "globalForPrisma_prisma s = Some b" by simp_all
  then show ?case by simp
next
  case (Cons w ws)
  show ?case
  proof (cases "globalForPrisma_prisma s")
    case None
    with Cons.prems have "Some a \<in> set (cache_trace ws (snd (getPrismaClient w s)))"
      "Some b \<in> set (cache_trace ws (snd (getPrismaClient w s)))" by auto
    then show ?thesis by (rule Cons.IH)
  next
    case (Some c)
    from cache_trace_cached [OF this, of "w # ws"] Cons.prems show ?thesis by auto
  qed
qed

lemma file_not_postgres:
  "startsWith u (js ''postgresql://'') \<or> startsWith u (js ''postgres://'')
   \<Longrightarrow> \<not> startsWith u (js ''file:'')"
  by (cases u) (auto simp: startsWith_def js_def)




text \<open>With nothing cached and a connection string left, the call is the dispatch on the prefix.\<close>

lemma getPrismaClient_initialises:
  assumes "globalForPrisma_prisma s = None"
    and "DATABASE_URL (process_env w) = Some raw"
    and "clean raw = u" and "u \<noteq> []"
  shows "getPrismaClient w s =
     (case (if startsWith u (js ''file:'') then sqlite_client w u s
            else if startsWith u (js ''postgresql://'') \<or> startsWith u (js ''postgres://'')
              then postgres_client w u s
            else default_client w s) of
        (Inl e, s') \<Rightarrow> (Inl e, s')
      | (Inr client, s') \<Rightarrow> (Inr client, s'\<lparr>globalForPrisma_prisma := Some client\<rparr>))"
proof -
  from assms have "raw \<noteq> []" using clean_Nil by auto
  with assms show ?thesis by (simp add: getPrismaClient_def Let_def)
qed

section \<open>Claims about the lazily initialised provider\<close>

text \<open>
  Claim C1, as amended. Where the connection string is absent, or empty after trimming
  and quote-stripping, a call of \<open>getPrismaClient\<close> that finds no cached handle raises a
  configuration error, whose message says that \<open>DATABASE_URL\<close> is not set or is empty,
  and neither stores nor returns a client handle. So in a process that starts with
  nothing cached and runs in such environments, each call raises and leaves the state as
  it was: the cache stays empty and no client is ever constructed.
\<close>

theorem missing_connection_string_raises:
  assumes "globalForPrisma_prisma s = None"
    and "\<forall>w \<in> set ws. connection_string_missing w"
  shows "\<exists>rs. calls ws s = (rs, s) \<and> length rs = length ws
            \<and> (\<forall>r \<in> set rs. \<exists>e. r = Inl e \<and> ConfigurationError e)"
  using assms
proof (induction ws)
  case Nil
  then show ?case by simp
next
  case (Cons w ws)
  from Cons.prems obtain e where e: "getPrismaClient w s = (Inl e, s)" "ConfigurationError e"
    using getPrismaClient_missing [of s w] by auto
  from Cons obtain rs where rs: "calls ws s = (rs, s)" "length rs = length ws"
    "\<forall>r \<in> set rs. \<exists>e. r = Inl e \<and> ConfigurationError e"
    by auto
  show ?case
    using e rs by simp
qed

theorem missing_connection_string_raises_witness:
  "globalForPrisma_prisma initial_state = None
   \<and> connection_string_missing (example_world None)
   \<and> connection_string_missing (example_world (Some (js ''   '')))
   \<and> connection_string_missing (example_world (Some [0x20, 0x22, 0x22]))
   \<and> calls [example_world None, example_world (Some (js ''   '')),
             example_world (Some [0x20, 0x22, 0x22])] initial_state =
       ([Inl (Error (js ''DATABASE_URL environment variable is not set. Please add it to your .env file.'')),
         Inl (Error (js ''DATABASE_URL is empty after parsing.'')),
         Inl (Error (js ''DATABASE_URL is empty after parsing.''))], initial_state)"
  using missing_connection_string_raises [of initial_state
      "[example_world None, example_world (Some (js ''   '')),
        example_world (Some [0x20, 0x22, 0x22])]"]
  by (simp add: connection_string_missing_def string_defs provider_defs)

text \<open>
  Claim C1 as stated speaks of every environment without a connection string, whatever
  is cached. It fails where a handle is cached: a handle cached while the variable was
  set is returned after the variable is gone, and the second call of this run raises
  nothing.
\<close>

theorem cached_handle_returned_without_configuration:
  "connection_string_missing (example_world None)
   \<and> calls [example_world (Some (js ''mysql://u@h/db'')), example_world None] initial_state =
       ([Inr 0, Inr 0], one_client)
   \<and> getPrismaClient (example_world None) one_client = (Inr 0, one_client)"
  by (simp add: connection_string_missing_def one_client_def string_defs provider_defs)




text \<open>
  Claim C3. Once a call of \<open>getPrismaClient\<close> has succeeded, every later call of the
  process returns the very same handle, whatever the environment has become (the
  configuration is not looked at again), and does not change the state. Along any run
  the cache never holds two different handles.
\<close>

theorem cached_handle_is_reused:
  "(getPrismaClient w s = (Inr c, s') \<longrightarrow>
      globalForPrisma_prisma s' = Some c \<and> calls ws s' = (replicate (length ws) (Inr c), s'))
   \<and> (Some a \<in> set (cache_trace ws s) \<and> Some b \<in> set (cache_trace ws s) \<longrightarrow> a = b)"
  using getPrismaClient_success_cached [of w s c s'] calls_cached [of s' c ws]
    cache_trace_unique [of a ws s b]
  by blast

theorem cached_handle_is_reused_witness:
  "getPrismaClient (example_world (Some (js ''mysql://u@h/db''))) initial_state = (Inr 0, one_client)
   \<and> globalForPrisma_prisma one_client = Some 0
   \<and> calls [example_world None, example_world (Some (js ''file:./dev.db''))] one_client =
       ([Inr 0, Inr 0], one_client)
   \<and> Some 0 \<in> set (cache_trace [example_world None, example_world (Some (js ''file:./dev.db''))]
                      one_client)"
  using cached_handle_is_reused [of "example_world (Some (js ''mysql://u@h/db''))" initial_state
      0 one_client "[example_world None, example_world (Some (js ''file:./dev.db''))]" 0 0]
    cached_handle_is_reused [of "example_world None" one_client
      0 one_client "[example_world None, example_world (Some (js ''file:./dev.db''))]" 0 0]
  by (simp add: one_client_def string_defs provider_defs)

text \<open>
  Claim C4. For a connection string with a Postgres prefix, when the construction of the
  connection pool or of the networked adapter throws, \<open>getPrismaClient\<close> does not pass that
  error on: it constructs the default client, without adapter and with the connection
  string itself as its data source, caches it and returns it. The only error the call can
  then end with is one thrown by the constructor of that default client.
\<close>

theorem postgres_adapter_failure_falls_back:
  assumes "globalForPrisma_prisma s = None"
    and "DATABASE_URL (process_env w) = Some raw"
    and "clean raw = u"
    and "startsWith u (js ''postgresql://'') \<or> startsWith u (js ''postgres://'')"
    and "new_Pool w (pg_poolConfig u) = Some e \<or> new_PrismaPg w (pg_poolConfig u) = Some e"
  shows "(new_PrismaClient w (fallback_options w u) = None \<longrightarrow>
            getPrismaClient w s = initialised_with (fallback_options w u) s)
       \<and> (\<forall>e'. new_PrismaClient w (fallback_options w u) = Some e' \<longrightarrow>
            getPrismaClient w s = (Inl e', s))
       \<and> adapter (fallback_options w u) = None
       \<and> datasources_db_url (fallback_options w u) = Some u"
proof -
  from assms(4) have nonempty: "u \<noteq> []"
    by (auto simp: startsWith_def js_def)
  from assms(4) have nofile: "\<not> startsWith u (js ''file:'')"
    by (rule file_not_postgres)
  from assms(5) have "\<exists>x. postgres_try w u s = (Inl x, s)"
    by (auto simp: postgres_try_def Let_def split: option.splits)
  then have fallback: "postgres_client w u s = construct w (fallback_options w u) s"
    by (auto simp: postgres_client_def)
  have "getPrismaClient w s =
      (case construct w (fallback_options w u) s of
         (Inl e, s') \<Rightarrow> (Inl e, s')
       | (Inr client, s') \<Rightarrow> (Inr client, s'\<lparr>globalForPrisma_prisma := Some client\<rparr>))"
    using getPrismaClient_initialises [OF assms(1-3) nonempty] nofile assms(4) fallback
    by simp
  then show ?thesis
    by (auto simp: construct_def initialised_with_def fallback_options_def)
qed

theorem postgres_adapter_failure_falls_back_witness:
  "globalForPrisma_prisma initial_state = None
   \<and> DATABASE_URL (process_env pool_fails_world) = Some (js ''postgresql://u@h/db'')
   \<and> clean (js ''postgresql://u@h/db'') = js ''postgresql://u@h/db''
   \<and> startsWith (js ''postgresql://u@h/db'') (js ''postgresql://'')
   \<and> new_Pool pool_fails_world (pg_poolConfig (js ''postgresql://u@h/db'')) = Some (Error (js ''pool''))
   \<and> new_PrismaClient pool_fails_world (fallback_options pool_fails_world (js ''postgresql://u@h/db'')) = None
   \<and> getPrismaClient pool_fails_world initial_state =
       (Inr 0, \<lparr>globalForPrisma_prisma = Some 0,
                heap = [\<lparr>adapter = None, datasources_db_url = Some (js ''postgresql://u@h/db''),
                         datasourceUrl = None, log = []\<rparr>]\<rparr>)"
  using postgres_adapter_failure_falls_back [of initial_state pool_fails_world
      "js ''postgresql://u@h/db''" "js ''postgresql://u@h/db''" "Error (js ''pool'')"]
  by (simp add: pool_fails_world_def string_defs provider_defs)

section \<open>Facts about the health handler and the provider for the managed service\<close>

lemmas health_defs = GET_def GET_try_def GET_catch_def Promise_race_def truthy_def
  client_binding_def proxy_get_def

lemma GET_catch_unhealthy:
  "http_status (GET_catch w error) = 503
   \<and> is_Unhealthy (body (GET_catch w error))
   \<and> info_status (errorInfo_of (body (GET_catch w error))) = js ''unhealthy''
   \<and> info_database (errorInfo_of (body (GET_catch w error))) = js ''disconnected''
   \<and> info_error (errorInfo_of (body (GET_catch w error))) =
       (if message error \<noteq> [] then message error else js ''Unknown error'')
   \<and> info_code (errorInfo_of (body (GET_catch w error))) =
       (if truthy (code error) then the (code error) else js ''UNKNOWN'')"
  by (cases "code error") (simp_all add: GET_catch_def truthy_def)

lemma GET_try_ok:
  "GET_try prisma w s = (Inr r, s') \<Longrightarrow> http_status r = 200 \<and> is_Healthy (body r)"
  by (auto simp: GET_try_def Let_def split: prod.splits sum.splits)

lemma GET_healthy:
  assumes "prisma s = (Inr client, s1)"
    and "Promise_race (race_SELECT_1 w client 10000) = Inr ()"
    and "prisma s1 = (Inr client2, s2)"
    and "query_table_exists w client2 = Inr rows"
  shows "\<exists>r. GET prisma w s = (Inr r, s2) \<and> http_status r = 200 \<and> is_Healthy (body r)
           \<and> ok_status (healthy_of (body r)) = js ''healthy''
           \<and> ok_database (healthy_of (body r)) = js ''connected''"
  using assms by (simp add: GET_def GET_try_def Let_def)

lemma getDatabaseUrl_unset:
  "\<not> truthy (DATABASE_URL (process_env w)) \<Longrightarrow>
   getDatabaseUrl w = Inl (Error (js ''DATABASE_URL environment variable is not set''))"
  by (auto simp: getDatabaseUrl_def truthy_def split: option.splits)

lemma health_request_unset:
  assumes "\<not> truthy (DATABASE_URL (process_env w))" and "globalForPrisma_prisma s = None"
  shows "health_request w s = (Inl (Error (js ''DATABASE_URL environment variable is not set'')), s)"
  using assms by (simp add: health_request_def prisma_module_def getDatabaseUrl_unset)

text \<open>
  Behind the same handler the lazy provider turns the unset variable into a response:
  its proxy throws inside the \<open>try\<close> of the handler.
\<close>

lemma lazy_provider_reports_unset_url:
  "health_request_lazy (example_world None) initial_state =
     (Inr (GET_catch (example_world None)
        (Error (js ''Failed to initialize database connection: DATABASE_URL environment variable is not set. Please add it to your .env file.''))),
      initial_state)"
  by (simp add: health_request_lazy_def GET_def GET_try_def proxy_get_def getPrismaClient_def
      initial_state_def example_world_def Error_def js_def)

lemma searchParams_set_absent:
  "\<not> searchParams_has ps n \<Longrightarrow> searchParams_set ps n v = ps @ [(n, v)]"
  by (induction ps) (auto simp: searchParams_has_def)

lemma searchParams_delete_absent:
  "\<not> searchParams_has ps n \<Longrightarrow> searchParams_delete ps n = ps"
  by (induction ps) (auto simp: searchParams_has_def searchParams_delete_def)

lemma searchParams_has_delete:
  "searchParams_has (searchParams_delete ps n) m \<longleftrightarrow> m \<noteq> n \<and> searchParams_has ps m"
  by (auto simp: searchParams_has_def searchParams_delete_def)

lemma searchParams_has_append:
  "searchParams_has (ps @ [(n, v)]) m \<longleftrightarrow> m = n \<or> searchParams_has ps m"
  by (auto simp: searchParams_has_def)

lemma subseq_remove_separated_param: "subseq (remove_separated_param s) s"
proof (induction s rule: remove_separated_param.induct)
  case 1
  show ?case by simp
next
  case (2 c cs)
  show ?case
  proof (cases "(c = 0x26 \<or> c = 0x3F) \<and> prefix (js ''channel_binding='') cs")
    case True
    have "suffix (dropWhile (\<lambda>x. x \<noteq> 0x26) (drop 16 cs)) (drop 16 cs)"
      by (rule suffix_dropWhile)
    moreover have "suffix (drop 16 cs) (c # cs)"
      by (rule suffix_order.trans [OF suffix_drop suffix_ConsI]) simp
    ultimately have "subseq (dropWhile (\<lambda>x. x \<noteq> 0x26) (drop 16 cs)) (c # cs)"
      by (blast intro: suffix_order.trans)
    with 2(1) [OF True] True show ?thesis
      by (simp del: subseq_Cons2_iff)
  next
    case False
    with 2(2) show ?thesis by auto
  qed
qed

lemma subseq_remove_leading_param: "subseq (remove_leading_param s) s"
proof (induction s rule: remove_leading_param.induct)
  case 1
  show ?case by simp
next
  case (2 c cs)
  show ?case
  proof (cases "prefix (js ''channel_binding='') (c # cs)")
    case True
    have "suffix (drop 1 (dropWhile (\<lambda>x. x \<noteq> 0x26) (drop 16 (c # cs))))
            (dropWhile (\<lambda>x. x \<noteq> 0x26) (drop 16 (c # cs)))"
      by (rule suffix_drop)
    moreover have "suffix (dropWhile (\<lambda>x. x \<noteq> 0x26) (drop 16 (c # cs))) (drop 16 (c # cs))"
      by (rule suffix_dropWhile)
    moreover have "suffix (drop 16 (c # cs)) (c # cs)"
      by (rule suffix_drop)
    ultimately have "subseq (drop 1 (dropWhile (\<lambda>x. x \<noteq> 0x26) (drop 16 (c # cs)))) (c # cs)"
      by (blast intro: suffix_order.trans)
    with 2(1) [OF True] True show ?thesis
      by (simp del: subseq_Cons2_iff)
  next
    case False
    with 2(2) show ?thesis by auto
  qed
qed

text \<open>
  What the two replacements do, said without their recursion: a string without a match
  is left alone, and the leftmost match is cut out, after which the scan goes on behind
  it. The match of the first expression ends before the next \<open>&\<close>, the match of the
  second one takes that \<open>&\<close> along.
\<close>

lemma length_key: "length (js ''channel_binding='') = 16"
  by (simp add: js_def)

lemma key_butlast: "take 15 (js ''channel_binding='') = js ''channel_binding''"
  by (simp add: js_def)

lemma prefix_take:
  "prefix us b \<Longrightarrow> length us \<le> n \<Longrightarrow> prefix us (take n b)"
  by (auto simp: prefix_def)

lemma prefix_take_append:
  assumes "length k \<le> length a + n" and "prefix k (a @ b)"
  shows "prefix k (a @ take n b)"
proof -
  from assms(2) consider "prefix k a" | us where "k = a @ us" "prefix us b"
    by (auto simp: prefix_append)
  then show ?thesis
  proof cases
    case 1
    then show ?thesis by (simp add: prefix_append)
  next
    case 2
    with assms(1) have "prefix us (take n b)" by (simp add: prefix_take)
    with 2 show ?thesis by simp
  qed
qed

lemma remove_leading_param_unchanged:
  "\<not> str_includes s (js ''channel_binding='') \<Longrightarrow> remove_leading_param s = s"
  by (induction s) simp_all

lemma remove_leading_param_unfold:
  assumes "prefix (js ''channel_binding='') s"
  shows "remove_leading_param s =
         remove_leading_param (drop 1 (dropWhile (\<lambda>x. x \<noteq> 0x26) (drop 16 s)))"
proof (cases s)
  case Nil
  with assms show ?thesis by (simp add: js_def)
next
  case (Cons c cs)
  with assms show ?thesis by simp
qed

lemma dropWhile_value:
  assumes "(0x26 :: 16 word) \<notin> set v"
  shows "dropWhile (\<lambda>x. x \<noteq> 0x26) v = []"
    and "dropWhile (\<lambda>x. x \<noteq> 0x26) (v @ 0x26 # r) = 0x26 # r"
  using assms by (induction v) auto

lemma remove_leading_param_match:
  assumes "0x26 \<notin> set v"
  shows "remove_leading_param (js ''channel_binding='' @ v) = []"
    and "remove_leading_param (js ''channel_binding='' @ v @ 0x26 # r) = remove_leading_param r"
proof -
  have "remove_leading_param (js ''channel_binding='' @ v) =
      remove_leading_param (drop 1 (dropWhile (\<lambda>x. x \<noteq> 0x26)
        (drop 16 (js ''channel_binding='' @ v))))"
    by (rule remove_leading_param_unfold) simp
  also have "drop 16 (js ''channel_binding='' @ v) = v"
    by (simp add: length_key)
  finally show "remove_leading_param (js ''channel_binding='' @ v) = []"
    by (simp add: dropWhile_value [OF assms])
  have "remove_leading_param (js ''channel_binding='' @ v @ 0x26 # r) =
      remove_leading_param (drop 1 (dropWhile (\<lambda>x. x \<noteq> 0x26)
        (drop 16 (js ''channel_binding='' @ v @ 0x26 # r))))"
    by (rule remove_leading_param_unfold) simp
  also have "drop 16 (js ''channel_binding='' @ v @ 0x26 # r) = v @ 0x26 # r"
    by (simp add: length_key)
  finally show "remove_leading_param (js ''channel_binding='' @ v @ 0x26 # r) =
      remove_leading_param r"
    by (simp add: dropWhile_value [OF assms])
qed

lemma remove_leading_param_skip:
  assumes "\<not> str_includes (pre @ js ''channel_binding'') (js ''channel_binding='')"
  shows "remove_leading_param (pre @ js ''channel_binding='' @ rest) =
         pre @ remove_leading_param (js ''channel_binding='' @ rest)"
  using assms
proof (induction pre)
  case Nil
  show ?case by simp
next
  case (Cons p pre)
  from Cons.prems have no: "\<not> prefix (js ''channel_binding='') (p # pre @ js ''channel_binding'')"
    and rest: "\<not> str_includes (pre @ js ''channel_binding'') (js ''channel_binding='')"
    by simp_all
  have "\<not> prefix (js ''channel_binding='') ((p # pre) @ js ''channel_binding='' @ rest)"
  proof
    assume "prefix (js ''channel_binding='') ((p # pre) @ js ''channel_binding='' @ rest)"
    then have "prefix (js ''channel_binding='') ((p # pre) @ take 15 (js ''channel_binding='' @ rest))"
      by (rule prefix_take_append [rotated]) (simp add: length_key)
    with no show False by (simp add: length_key key_butlast)
  qed
  then have "remove_leading_param ((p # pre) @ js ''channel_binding='' @ rest) =
      p # remove_leading_param (pre @ js ''channel_binding='' @ rest)"
    by simp
  with Cons.IH [OF rest] show ?case by simp
qed


lemma sep_key:
  "js ''&channel_binding='' = 0x26 # js ''channel_binding=''"
  "js ''?channel_binding='' = 0x3F # js ''channel_binding=''"
  by (simp_all add: js_def)

lemma remove_separated_param_unchanged:
  assumes "\<not> str_includes s (js ''&channel_binding='')"
    and "\<not> str_includes s (js ''?channel_binding='')"
  shows "remove_separated_param s = s"
  using assms by (induction s) (auto simp: sep_key)

lemma remove_separated_param_match:
  assumes "sep = 0x26 \<or> sep = 0x3F" and "0x26 \<notin> set v"
  shows "remove_separated_param (sep # js ''channel_binding='' @ v) = []"
    and "remove_separated_param (sep # js ''channel_binding='' @ v @ 0x26 # r) =
         remove_separated_param (0x26 # r)"
proof -
  have drops: "drop 16 (js ''channel_binding='' @ v) = v"
    "drop 16 (js ''channel_binding='' @ v @ 0x26 # r) = v @ 0x26 # r"
    by (simp_all add: length_key)
  from assms(1)
  show "remove_separated_param (sep # js ''channel_binding='' @ v) = []"
    and "remove_separated_param (sep # js ''channel_binding='' @ v @ 0x26 # r) =
         remove_separated_param (0x26 # r)"
    by (simp_all add: drops dropWhile_value [OF assms(2)] del: drop_append)
qed

lemma remove_separated_param_skip:
  assumes "\<not> str_includes (pre @ sep # js ''channel_binding'') (js ''&channel_binding='')"
    and "\<not> str_includes (pre @ sep # js ''channel_binding'') (js ''?channel_binding='')"
  shows "remove_separated_param (pre @ sep # js ''channel_binding='' @ rest) =
         pre @ remove_separated_param (sep # js ''channel_binding='' @ rest)"
  using assms
proof (induction pre)
  case Nil
  show ?case by simp
next
  case (Cons p pre)
  from Cons.prems have no:
    "\<not> prefix (js ''&channel_binding='') (p # pre @ sep # js ''channel_binding'')"
    "\<not> prefix (js ''?channel_binding='') (p # pre @ sep # js ''channel_binding'')"
    and rest: "\<not> str_includes (pre @ sep # js ''channel_binding'') (js ''&channel_binding='')"
      "\<not> str_includes (pre @ sep # js ''channel_binding'') (js ''?channel_binding='')"
    by simp_all
  have len: "length (js ''&channel_binding='') = 17" "length (js ''?channel_binding='') = 17"
    by (simp_all add: js_def)
  have tk: "take 16 (sep # js ''channel_binding='' @ rest) = sep # js ''channel_binding''"
    by (simp add: js_def)
  have nomatch: "\<not> prefix k ((p # pre) @ sep # js ''channel_binding='' @ rest)"
    if "k = js ''&channel_binding='' \<or> k = js ''?channel_binding=''" for k
  proof
    assume "prefix k ((p # pre) @ sep # js ''channel_binding='' @ rest)"
    then have "prefix k ((p # pre) @ take 16 (sep # js ''channel_binding='' @ rest))"
      using that len by (intro prefix_take_append) auto
    then have "prefix k ((p # pre) @ sep # js ''channel_binding'')"
      unfolding tk .
    with no that show False by auto
  qed
  have "\<not> prefix (0x26 # js ''channel_binding='') (p # pre @ sep # js ''channel_binding='' @ rest)"
    "\<not> prefix (0x3F # js ''channel_binding='') (p # pre @ sep # js ''channel_binding='' @ rest)"
    using nomatch [of "js ''&channel_binding=''"] nomatch [of "js ''?channel_binding=''"]
    by (simp_all add: sep_key)
  then have "\<not> ((p = 0x26 \<or> p = 0x3F)
      \<and> prefix (js ''channel_binding='') (pre @ sep # js ''channel_binding='' @ rest))"
    by auto
  then have "remove_separated_param ((p # pre) @ sep # js ''channel_binding='' @ rest) =
      p # remove_separated_param (pre @ sep # js ''channel_binding='' @ rest)"
    by auto
  with Cons.IH [OF rest] show ?case by simp
qed

lemma searchParams_has_filter:
  "searchParams_has (filter (\<lambda>q. fst q \<noteq> n) ps) m \<longleftrightarrow> m \<noteq> n \<and> searchParams_has ps m"
  by (auto simp: searchParams_has_def)

lemma getDatabaseUrl_parsed:
  assumes "DATABASE_URL (process_env w) = Some url" and "url \<noteq> []"
    and "URL_parse w (trim url) = Some urlObj"
    and "ps = filter (\<lambda>q. fst q \<noteq> js ''channel_binding'')
            (if searchParams_has (searchParams urlObj) (js ''sslmode'') then searchParams urlObj
             else searchParams urlObj @ [(js ''sslmode'', js ''require'')])"
  shows "getDatabaseUrl w =
      Inr (URL_toString w
        (urlObj\<lparr>searchParams := ps,
               query := (if searchParams_has (searchParams urlObj) (js ''sslmode'')
                            \<and> \<not> searchParams_has (searchParams urlObj) (js ''channel_binding'')
                         then query urlObj
                         else if urlencoded w ps = [] then None
                         else Some (urlencoded w ps))\<rparr>))"
proof -
  have neq: "js ''channel_binding'' \<noteq> js ''sslmode''"
    by (simp add: js_def)
  show ?thesis
  proof (cases "searchParams_has (searchParams urlObj) (js ''sslmode'')")
    case ssl: True
    show ?thesis
    proof (cases "searchParams_has (searchParams urlObj) (js ''channel_binding'')")
      case True
      with ssl assms show ?thesis
        by (simp add: getDatabaseUrl_def Let_def update_query_def searchParams_delete_def)
    next
      case False
      with ssl assms show ?thesis
        using searchParams_delete_absent [OF False]
        by (simp add: getDatabaseUrl_def Let_def searchParams_delete_def)
    qed
  next
    case nossl: False
    note set = searchParams_set_absent [OF nossl, of "js ''require''"]
    show ?thesis
    proof (cases "searchParams_has (searchParams urlObj) (js ''channel_binding'')")
      case True
      then have "searchParams_has (searchParams urlObj @ [(js ''sslmode'', js ''require'')])
          (js ''channel_binding'')"
        by (simp add: searchParams_has_append)
      with nossl assms set show ?thesis
        by (simp add: getDatabaseUrl_def Let_def update_query_def searchParams_delete_def)
    next
      case False
      then have no: "\<not> searchParams_has (searchParams urlObj @ [(js ''sslmode'', js ''require'')])
          (js ''channel_binding'')"
        using neq by (simp add: searchParams_has_append)
      from searchParams_delete_absent [OF no] nossl assms set no show ?thesis
        by (simp add: getDatabaseUrl_def Let_def update_query_def searchParams_delete_def)
    qed
  qed
qed

lemma getDatabaseUrl_unparsed:
  assumes "DATABASE_URL (process_env w) = Some url" and "url \<noteq> []"
    and "URL_parse w (trim url) = None"
  shows "getDatabaseUrl w =
      Inr (if str_includes (trim url) (js ''channel_binding'')
           then remove_leading_param (remove_separated_param (trim url)) else trim url)"
  using assms by (simp add: getDatabaseUrl_def Let_def)

lemma prisma_module_constructs:
  assumes "globalForPrisma_prisma s = None" and "getDatabaseUrl w = Inr r"
    and "new_PrismaClient w (neon_options w r) = None"
  shows "prisma_module w s = initialised_with (neon_options w r) s"
  using assms by (simp add: prisma_module_def construct_def initialised_with_def)

section \<open>Claims about the health handler\<close>

text \<open>
  Claim C5. The handler never raises. Whatever a read of \<open>prisma\<close>, the liveness query
  or the metadata query throws is caught and becomes the response of the \<open>catch\<close> block:
  status 503, with \<open>status\<close> unhealthy, \<open>database\<close> disconnected, and the fields \<open>error\<close>
  and \<open>code\<close> taken from the error (or their defaults). When both reads give a client,
  the liveness query is fulfilled before the timer fires and the metadata query returns,
  nothing is thrown and the response has status 200, with \<open>status\<close> healthy and
  \<open>database\<close> connected. These cases are all there are.
\<close>

theorem health_handler_never_raises:
  "(\<exists>r s'. GET prisma w s = (Inr r, s')
       \<and> (http_status r = 200 \<and> is_Healthy (body r) \<or> (\<exists>error. r = GET_catch w error)))
   \<and> (\<forall>error s1. prisma s = (Inl error, s1) \<longrightarrow>
         GET prisma w s = (Inr (GET_catch w error), s1))
   \<and> (\<forall>error client s1. prisma s = (Inr client, s1)
         \<and> Promise_race (race_SELECT_1 w client 10000) = Inl error \<longrightarrow>
         GET prisma w s = (Inr (GET_catch w error), s1))
   \<and> (\<forall>error client s1 s2. prisma s = (Inr client, s1)
         \<and> Promise_race (race_SELECT_1 w client 10000) = Inr ()
         \<and> prisma s1 = (Inl error, s2) \<longrightarrow>
         GET prisma w s = (Inr (GET_catch w error), s2))
   \<and> (\<forall>error client s1 client2 s2. prisma s = (Inr client, s1)
         \<and> Promise_race (race_SELECT_1 w client 10000) = Inr ()
         \<and> prisma s1 = (Inr client2, s2) \<and> query_table_exists w client2 = Inl error \<longrightarrow>
         GET prisma w s = (Inr (GET_catch w error), s2))
   \<and> (\<forall>client s1 client2 s2 rows. prisma s = (Inr client, s1)
         \<and> Promise_race (race_SELECT_1 w client 10000) = Inr ()
         \<and> prisma s1 = (Inr client2, s2) \<and> query_table_exists w client2 = Inr rows \<longrightarrow>
         (\<exists>r. GET prisma w s = (Inr r, s2) \<and> http_status r = 200 \<and> is_Healthy (body r)
            \<and> ok_status (healthy_of (body r)) = js ''healthy''
            \<and> ok_database (healthy_of (body r)) = js ''connected''))
   \<and> (\<forall>error. http_status (GET_catch w error) = 503
         \<and> is_Unhealthy (body (GET_catch w error))
         \<and> info_status (errorInfo_of (body (GET_catch w error))) = js ''unhealthy''
         \<and> info_database (errorInfo_of (body (GET_catch w error))) = js ''disconnected''
         \<and> info_error (errorInfo_of (body (GET_catch w error))) =
             (if message error \<noteq> [] then message error else js ''Unknown error'')
         \<and> info_code (errorInfo_of (body (GET_catch w error))) =
             (if truthy (code error) then the (code error) else js ''UNKNOWN''))"
proof (intro conjI allI impI)
  show "\<exists>r s'. GET prisma w s = (Inr r, s')
       \<and> (http_status r = 200 \<and> is_Healthy (body r) \<or> (\<exists>error. r = GET_catch w error))"
  proof (cases "GET_try prisma w s")
    case (Pair x s')
    show ?thesis
    proof (cases x)
      case (Inl error)
      with Pair show ?thesis by (auto simp: GET_def)
    next
      case (Inr r)
      with Pair GET_try_ok [of prisma w s r s'] show ?thesis by (simp add: GET_def)
    qed
  qed
next
  fix client s1 client2 s2 rows
  assume "prisma s = (Inr client, s1)
         \<and> Promise_race (race_SELECT_1 w client 10000) = Inr ()
         \<and> prisma s1 = (Inr client2, s2) \<and> query_table_exists w client2 = Inr rows"
  then show "\<exists>r. GET prisma w s = (Inr r, s2) \<and> http_status r = 200 \<and> is_Healthy (body r)
            \<and> ok_status (healthy_of (body r)) = js ''healthy''
            \<and> ok_database (healthy_of (body r)) = js ''connected''"
    using GET_healthy [of prisma s client s1 w client2 s2 rows] by blast
qed (auto simp: GET_def GET_try_def GET_catch_unhealthy)

theorem health_handler_never_raises_witness:
  "proxy_get (example_world None) initial_state =
     (Inl (Error (js ''Failed to initialize database connection: DATABASE_URL environment variable is not set. Please add it to your .env file.'')),
      initial_state)
   \<and> GET (proxy_get (example_world None)) (example_world None) initial_state =
     (Inr (GET_catch (example_world None)
        (Error (js ''Failed to initialize database connection: DATABASE_URL environment variable is not set. Please add it to your .env file.''))),
      initial_state)
   \<and> client_binding 0 one_client = (Inr 0, one_client)
   \<and> Promise_race (race_SELECT_1 timeout_world 0 10000) = Inl (Error (js ''Connection timeout''))
   \<and> GET (client_binding 0) timeout_world one_client =
     (Inr (GET_catch timeout_world (Error (js ''Connection timeout''))), one_client)
   \<and> Promise_race (race_SELECT_1 metadata_fails_world 0 10000) = Inr ()
   \<and> query_table_exists metadata_fails_world 0 = Inl connection_closed
   \<and> GET (client_binding 0) metadata_fails_world one_client =
     (Inr (GET_catch metadata_fails_world connection_closed), one_client)
   \<and> http_status (GET_catch metadata_fails_world connection_closed) = 503
   \<and> second_read_fails one_client = (Inr 0, one_client\<lparr>globalForPrisma_prisma := None\<rparr>)
   \<and> second_read_fails (one_client\<lparr>globalForPrisma_prisma := None\<rparr>) =
     (Inl (Error (js ''client is gone'')), one_client\<lparr>globalForPrisma_prisma := None\<rparr>)
   \<and> GET second_read_fails (example_world (Some (js ''postgresql://u@h/db''))) one_client =
     (Inr (GET_catch (example_world (Some (js ''postgresql://u@h/db'')))
        (Error (js ''client is gone''))), one_client\<lparr>globalForPrisma_prisma := None\<rparr>)
   \<and> Promise_race (race_SELECT_1 (example_world (Some (js ''postgresql://u@h/db''))) 0 10000) = Inr ()
   \<and> query_table_exists (example_world (Some (js ''postgresql://u@h/db''))) 0 = Inr [Some True]
   \<and> GET (client_binding 0) (example_world (Some (js ''postgresql://u@h/db''))) one_client =
     (Inr \<lparr>http_status = 200,
           body = Healthy \<lparr>ok_status = js ''healthy'', ok_database = js ''connected'',
                           ok_tables_client_users = js ''exists'',
                           ok_environment = None, ok_hasDatabaseUrl = True,
                           ok_timestamp = js ''2024-01-01T00:00:00.000Z''\<rparr>\<rparr>, one_client)"
  using health_handler_never_raises [of "proxy_get (example_world None)" "example_world None" initial_state]
    health_handler_never_raises [of "client_binding 0" timeout_world one_client]
    health_handler_never_raises [of "client_binding 0" metadata_fails_world one_client]
    health_handler_never_raises [of second_read_fails
      "example_world (Some (js ''postgresql://u@h/db''))" one_client]
    health_handler_never_raises [of "client_binding 0"
      "example_world (Some (js ''postgresql://u@h/db''))" one_client]
  by (simp add: GET_def GET_try_def Promise_race_def truthy_def client_binding_def proxy_get_def
      GET_catch_unhealthy provider_defs timeout_world_def metadata_fails_world_def
      second_read_fails_def one_client_def js_def)

text \<open>
  Claim C6. When the liveness query has not been fulfilled by the time the timer of
  10000 ms fires, the handler answers 503 with \<open>database\<close> disconnected: the rejection
  of the timer wins the race and is reported as \<open>Connection timeout\<close>, whatever the query
  would have settled to later. The query is not cancelled; nobody looks at it again. A
  query rejected before the timer fires is answered 503 as well.
\<close>

theorem liveness_timeout_is_unhealthy:
  assumes "prisma s = (Inr client, s1)"
  shows "(race_SELECT_1 w client 10000 = TimerFiresFirst later \<longrightarrow>
            GET prisma w s = (Inr (GET_catch w (Error (js ''Connection timeout''))), s1))
       \<and> (race_SELECT_1 w client 10000 = QuerySettlesFirst (Inl rejection) \<longrightarrow>
            GET prisma w s = (Inr (GET_catch w rejection), s1))
       \<and> http_status (GET_catch w error) = 503
       \<and> info_database (errorInfo_of (body (GET_catch w error))) = js ''disconnected''
       \<and> info_error (errorInfo_of (body (GET_catch w (Error (js ''Connection timeout''))))) =
           js ''Connection timeout''"
  using assms
  by (simp add: GET_def GET_try_def Promise_race_def GET_catch_unhealthy Error_def js_def)

theorem liveness_timeout_is_unhealthy_witness:
  "client_binding 0 one_client = (Inr 0, one_client)
   \<and> race_SELECT_1 timeout_world 0 10000 = TimerFiresFirst (Some (Inr ()))
   \<and> GET (client_binding 0) timeout_world one_client =
       (Inr (GET_catch timeout_world (Error (js ''Connection timeout''))), one_client)
   \<and> http_status (GET_catch timeout_world (Error (js ''Connection timeout''))) = 503"
  using liveness_timeout_is_unhealthy [of "client_binding 0" one_client 0 one_client timeout_world
      "Some (Inr ())"]
  by (simp add: client_binding_def timeout_world_def example_world_def)

text \<open>
  Claim C7, as amended. When the liveness query is fulfilled before the timer fires and
  the metadata query returns its rows, the response is 200 with \<open>status\<close> healthy and
  \<open>database\<close> connected, whatever the rows say: a first row whose \<open>exists\<close> is true gives
  \<open>client_users\<close> exists, anything else (false, no row, no such column) gives missing.
\<close>

theorem table_absence_keeps_healthy:
  assumes "prisma s = (Inr client, s1)"
    and "race_SELECT_1 w client 10000 = QuerySettlesFirst (Inr ())"
    and "prisma s1 = (Inr client2, s2)"
    and "query_table_exists w client2 = Inr rows"
  shows "\<exists>ok. GET prisma w s = (Inr \<lparr>http_status = 200, body = Healthy ok\<rparr>, s2)
           \<and> ok_status ok = js ''healthy''
           \<and> ok_database ok = js ''connected''
           \<and> ok_tables_client_users ok =
               (if take 1 rows = [Some True] then js ''exists'' else js ''missing'')"
  using assms
  by (auto simp: GET_def GET_try_def Promise_race_def Let_def split: list.splits option.splits)

theorem table_absence_keeps_healthy_witness:
  "client_binding 0 one_client = (Inr 0, one_client)
   \<and> race_SELECT_1 table_missing_world 0 10000 = QuerySettlesFirst (Inr ())
   \<and> query_table_exists table_missing_world 0 = Inr [Some False]
   \<and> GET (client_binding 0) table_missing_world one_client =
       (Inr \<lparr>http_status = 200,
             body = Healthy \<lparr>ok_status = js ''healthy'', ok_database = js ''connected'',
                             ok_tables_client_users = js ''missing'',
                             ok_environment = None, ok_hasDatabaseUrl = True,
                             ok_timestamp = js ''2024-01-01T00:00:00.000Z''\<rparr>\<rparr>, one_client)"
  using table_absence_keeps_healthy [of "client_binding 0" one_client 0 one_client
      table_missing_world 0 one_client "[Some False]"]
  by (simp add: health_defs table_missing_world_def example_world_def js_def)

text \<open>
  Claim C7 as stated promises 200 for every fulfilled liveness query. The metadata query
  runs inside the same \<open>try\<close>: when it throws after a fulfilled liveness query, the
  response is 503 with \<open>database\<close> disconnected.
\<close>

theorem metadata_failure_is_unhealthy:
  "Promise_race (race_SELECT_1 metadata_fails_world 0 10000) = Inr ()
   \<and> GET (client_binding 0) metadata_fails_world one_client =
       (Inr (GET_catch metadata_fails_world connection_closed), one_client)
   \<and> http_status (GET_catch metadata_fails_world connection_closed) = 503
   \<and> info_database (errorInfo_of (body (GET_catch metadata_fails_world connection_closed))) =
       js ''disconnected''"
  by (simp add: health_defs metadata_fails_world_def example_world_def)

text \<open>
  Claim C8, as amended. For a caught error that carries a code, the 503 body repeats the
  code in \<open>prismaCode\<close> and in \<open>code\<close>; the suggestion is the connectivity text for
  \<open>P1001\<close> and \<open>P1017\<close>, the credentials text for \<open>P1000\<close>, and absent for every other
  code.
\<close>

theorem suggestion_by_error_code:
  assumes "code error = Some c" and "c \<noteq> []"
  shows "http_status (GET_catch w error) = 503
       \<and> info_prismaCode (errorInfo_of (body (GET_catch w error))) = Some c
       \<and> info_code (errorInfo_of (body (GET_catch w error))) = c
       \<and> (c = js ''P1001'' \<or> c = js ''P1017'' \<longrightarrow>
            info_suggestion (errorInfo_of (body (GET_catch w error))) =
              Some (js ''Check database connection string and network connectivity''))
       \<and> (c = js ''P1000'' \<longrightarrow>
            info_suggestion (errorInfo_of (body (GET_catch w error))) =
              Some (js ''Check database credentials''))
       \<and> (c \<noteq> js ''P1001'' \<and> c \<noteq> js ''P1017'' \<and> c \<noteq> js ''P1000'' \<longrightarrow>
            info_suggestion (errorInfo_of (body (GET_catch w error))) = None)"
proof -
  have "js ''P1000'' \<noteq> js ''P1001''" "js ''P1000'' \<noteq> js ''P1017''"
    by (simp_all add: js_def)
  with assms show ?thesis
    by (auto simp: GET_catch_def truthy_def)
qed

theorem suggestion_by_error_code_witness:
  "code connection_closed = Some (js ''P1017'') \<and> js ''P1017'' \<noteq> []
   \<and> info_prismaCode (errorInfo_of (body (GET_catch (example_world None) connection_closed))) =
       Some (js ''P1017'')
   \<and> info_suggestion (errorInfo_of (body (GET_catch (example_world None) connection_closed))) =
       Some (js ''Check database connection string and network connectivity'')
   \<and> code (connection_closed\<lparr>code := Some (js ''P1000'')\<rparr>) = Some (js ''P1000'')
   \<and> info_suggestion (errorInfo_of (body (GET_catch (example_world None)
         (connection_closed\<lparr>code := Some (js ''P1000'')\<rparr>)))) =
       Some (js ''Check database credentials'')
   \<and> code raw_query_failed = Some (js ''P2010'')
   \<and> js ''P2010'' \<noteq> js ''P1001'' \<and> js ''P2010'' \<noteq> js ''P1017''
   \<and> js ''P2010'' \<noteq> js ''P1000''
   \<and> info_prismaCode (errorInfo_of (body (GET_catch (example_world None) raw_query_failed))) =
       Some (js ''P2010'')"
  using suggestion_by_error_code [of connection_closed "js ''P1017''" "example_world None"]
    suggestion_by_error_code [of "connection_closed\<lparr>code := Some (js ''P1000'')\<rparr>" "js ''P1000''"
      "example_world None"]
    suggestion_by_error_code [of raw_query_failed "js ''P2010''" "example_world None"]
  by (simp add: connection_closed_def raw_query_failed_def js_def)

text \<open>
  Claim C8 says in its last sentence that a suggestion goes with every category,
  the unknown one included. An error with the code \<open>P2010\<close> gets none.
\<close>

theorem unknown_code_has_no_suggestion:
  "code raw_query_failed = Some (js ''P2010'')
   \<and> info_prismaCode (errorInfo_of (body (GET_catch (example_world None) raw_query_failed))) =
       Some (js ''P2010'')
   \<and> info_suggestion (errorInfo_of (body (GET_catch (example_world None) raw_query_failed))) = None"
  by (simp add: GET_catch_def truthy_def raw_query_failed_def js_def)

text \<open>
  Claim C9. With \<open>DATABASE_URL\<close> unset and no client cached, a request to the health
  route is not answered with 503: the top-level statements of the imported module call
  \<open>getDatabaseUrl\<close>, its error ends the import, and the handler with its \<open>catch\<close> is never
  entered. The request ends with that error uncaught.
\<close>

theorem unset_url_ends_the_import:
  "DATABASE_URL (process_env (example_world None)) = None
   \<and> health_request (example_world None) initial_state =
       (Inl (Error (js ''DATABASE_URL environment variable is not set'')), initial_state)"
proof -
  have "\<not> truthy (DATABASE_URL (process_env (example_world None)))"
    by (simp add: truthy_def example_world_def)
  moreover have "globalForPrisma_prisma initial_state = None"
    by (simp add: initial_state_def)
  ultimately show ?thesis
    by (simp add: health_request_unset example_world_def)
qed

section \<open>Claim about the provider for the managed service\<close>

text \<open>
  Claim C10. Where \<open>DATABASE_URL\<close> is set, the provider rewrites it before it constructs
  the client. When the trimmed string parses as a URL, the result is the serialisation
  of that URL with the parameter \<open>sslmode=require\<close> added at the end where no \<open>sslmode\<close>
  was present and with every \<open>channel_binding\<close> parameter deleted; the query string is
  written anew from the parameter list whenever the list has changed, and kept otherwise.
  When the string does not parse, the result is the trimmed string, after the two
  regular-expression removals when the word \<open>channel_binding\<close> occurs in it. Each removal
  leaves a string without a match alone and cuts the leftmost match out: a separator
  \<open>&\<close> or \<open>?\<close> with \<open>channel_binding=\<close> and its value for the first, \<open>channel_binding=\<close>
  with its value and the \<open>&\<close> behind it for the second. They only take characters
  away, so no \<open>sslmode\<close> is added. The client is constructed with the result as its
  \<open>datasourceUrl\<close>.
\<close>

theorem neon_connection_string_is_rewritten:
  assumes "DATABASE_URL (process_env w) = Some url" and "url \<noteq> []"
  shows "(\<forall>urlObj. URL_parse w (trim url) = Some urlObj \<longrightarrow>
           (let ps = filter (\<lambda>q. fst q \<noteq> js ''channel_binding'')
                       (if searchParams_has (searchParams urlObj) (js ''sslmode'')
                        then searchParams urlObj
                        else searchParams urlObj @ [(js ''sslmode'', js ''require'')])
            in getDatabaseUrl w =
                 Inr (URL_toString w
                   (urlObj\<lparr>searchParams := ps,
                          query :=
                            (if searchParams_has (searchParams urlObj) (js ''sslmode'')
                                \<and> \<not> searchParams_has (searchParams urlObj) (js ''channel_binding'')
                             then query urlObj
                             else if urlencoded w ps = [] then None
                             else Some (urlencoded w ps))\<rparr>))
               \<and> searchParams_has ps (js ''sslmode'')
               \<and> (\<not> searchParams_has (searchParams urlObj) (js ''sslmode'') \<longrightarrow>
                     (js ''sslmode'', js ''require'') \<in> set ps)
               \<and> \<not> searchParams_has ps (js ''channel_binding'')))
       \<and> (URL_parse w (trim url) = None \<longrightarrow>
            getDatabaseUrl w =
              Inr (if str_includes (trim url) (js ''channel_binding'')
                   then remove_leading_param (remove_separated_param (trim url)) else trim url))
       \<and> (\<not> str_includes t (js ''&channel_binding='')
            \<and> \<not> str_includes t (js ''?channel_binding='') \<longrightarrow>
            remove_separated_param t = t)
       \<and> ((sep = 0x26 \<or> sep = 0x3F) \<and> 0x26 \<notin> set v
            \<and> \<not> str_includes (pre @ sep # js ''channel_binding'') (js ''&channel_binding='')
            \<and> \<not> str_includes (pre @ sep # js ''channel_binding'') (js ''?channel_binding='') \<longrightarrow>
            remove_separated_param (pre @ sep # js ''channel_binding='' @ v) = pre
            \<and> remove_separated_param (pre @ sep # js ''channel_binding='' @ v @ 0x26 # r) =
                pre @ remove_separated_param (0x26 # r))
       \<and> (\<not> str_includes t (js ''channel_binding='') \<longrightarrow> remove_leading_param t = t)
       \<and> (0x26 \<notin> set v
            \<and> \<not> str_includes (pre @ js ''channel_binding'') (js ''channel_binding='') \<longrightarrow>
            remove_leading_param (pre @ js ''channel_binding='' @ v) = pre
            \<and> remove_leading_param (pre @ js ''channel_binding='' @ v @ 0x26 # r) =
                pre @ remove_leading_param r)
       \<and> subseq (remove_leading_param (remove_separated_param t)) t
       \<and> (\<forall>result. globalForPrisma_prisma s = None \<and> getDatabaseUrl w = Inr result
              \<and> new_PrismaClient w (neon_options w result) = None \<longrightarrow>
            prisma_module w s = initialised_with (neon_options w result) s
            \<and> datasourceUrl (neon_options w result) = Some result)"
proof (intro conjI allI impI)
  fix urlObj
  assume parsed: "URL_parse w (trim url) = Some urlObj"
  have neq: "js ''channel_binding'' \<noteq> js ''sslmode''"
    by (simp add: js_def)
  define ps where "ps = filter (\<lambda>q. fst q \<noteq> js ''channel_binding'')
         (if searchParams_has (searchParams urlObj) (js ''sslmode'') then searchParams urlObj
          else searchParams urlObj @ [(js ''sslmode'', js ''require'')])"
  have "searchParams_has ps (js ''sslmode'')"
    using neq unfolding ps_def
    by (cases "searchParams_has (searchParams urlObj) (js ''sslmode'')")
      (simp_all add: searchParams_has_filter searchParams_has_append)
  moreover have "\<not> searchParams_has (searchParams urlObj) (js ''sslmode'') \<longrightarrow>
      (js ''sslmode'', js ''require'') \<in> set ps"
    using neq unfolding ps_def by auto
  moreover have "\<not> searchParams_has ps (js ''channel_binding'')"
    unfolding ps_def by (simp add: searchParams_has_filter)
  ultimately show "let ps = filter (\<lambda>q. fst q \<noteq> js ''channel_binding'')
                       (if searchParams_has (searchParams urlObj) (js ''sslmode'')
                        then searchParams urlObj
                        else searchParams urlObj @ [(js ''sslmode'', js ''require'')])
            in getDatabaseUrl w =
                 Inr (URL_toString w
                   (urlObj\<lparr>searchParams := ps,
                          query :=
                            (if searchParams_has (searchParams urlObj) (js ''sslmode'')
                                \<and> \<not> searchParams_has (searchParams urlObj) (js ''channel_binding'')
                             then query urlObj
                             else if urlencoded w ps = [] then None
                             else Some (urlencoded w ps))\<rparr>))
               \<and> searchParams_has ps (js ''sslmode'')
               \<and> (\<not> searchParams_has (searchParams urlObj) (js ''sslmode'') \<longrightarrow>
                     (js ''sslmode'', js ''require'') \<in> set ps)
               \<and> \<not> searchParams_has ps (js ''channel_binding'')"
    using getDatabaseUrl_parsed [OF assms parsed ps_def]
    unfolding Let_def ps_def [symmetric] by blast
next
  assume "URL_parse w (trim url) = None"
  then show "getDatabaseUrl w =
      Inr (if str_includes (trim url) (js ''channel_binding'')
           then remove_leading_param (remove_separated_param (trim url)) else trim url)"
    by (rule getDatabaseUrl_unparsed [OF assms])
next
  assume "\<not> str_includes t (js ''&channel_binding='')
      \<and> \<not> str_includes t (js ''?channel_binding='')"
  then show "remove_separated_param t = t"
    by (simp add: remove_separated_param_unchanged)
next
  assume a: "(sep = 0x26 \<or> sep = 0x3F) \<and> 0x26 \<notin> set v
      \<and> \<not> str_includes (pre @ sep # js ''channel_binding'') (js ''&channel_binding='')
      \<and> \<not> str_includes (pre @ sep # js ''channel_binding'') (js ''?channel_binding='')"
  then have skip: "remove_separated_param (pre @ sep # js ''channel_binding='' @ rest) =
      pre @ remove_separated_param (sep # js ''channel_binding='' @ rest)" for rest
    by (simp add: remove_separated_param_skip)
  from a have sep: "sep = 0x26 \<or> sep = 0x3F" and v: "0x26 \<notin> set v"
    by simp_all
  note m = remove_separated_param_match [OF sep v]
  show "remove_separated_param (pre @ sep # js ''channel_binding='' @ v) = pre"
    using skip [of v] m(1) by simp
  show "remove_separated_param (pre @ sep # js ''channel_binding='' @ v @ 0x26 # r) =
      pre @ remove_separated_param (0x26 # r)"
    using skip [of "v @ 0x26 # r"] m(2) [of r] by simp
next
  assume "\<not> str_includes t (js ''channel_binding='')"
  then show "remove_leading_param t = t"
    by (rule remove_leading_param_unchanged)
next
  assume a: "0x26 \<notin> set v
      \<and> \<not> str_includes (pre @ js ''channel_binding'') (js ''channel_binding='')"
  then have skip: "remove_leading_param (pre @ js ''channel_binding='' @ rest) =
      pre @ remove_leading_param (js ''channel_binding='' @ rest)" for rest
    by (simp add: remove_leading_param_skip)
  from a have v: "0x26 \<notin> set v"
    by simp
  note m = remove_leading_param_match [OF v]
  show "remove_leading_param (pre @ js ''channel_binding='' @ v) = pre"
    using skip [of v] m(1) by simp
  show "remove_leading_param (pre @ js ''channel_binding='' @ v @ 0x26 # r) =
      pre @ remove_leading_param r"
    using skip [of "v @ 0x26 # r"] m(2) [of r] by simp
next
  show "subseq (remove_leading_param (remove_separated_param t)) t"
    by (rule subseq_order.trans [OF subseq_remove_leading_param subseq_remove_separated_param])
next
  fix result
  assume "globalForPrisma_prisma s = None \<and> getDatabaseUrl w = Inr result
      \<and> new_PrismaClient w (neon_options w result) = None"
  then show "prisma_module w s = initialised_with (neon_options w result) s"
    by (simp add: prisma_module_constructs)
next
  fix result
  show "datasourceUrl (neon_options w result) = Some result"
    by (simp add: neon_options_def)
qed

theorem neon_connection_string_is_rewritten_witness:
  "DATABASE_URL (process_env (example_world (Some neon_url))) = Some neon_url
   \<and> neon_url \<noteq> []
   \<and> URL_parse (example_world (Some neon_url)) (trim neon_url) =
       Some \<lparr>searchParams = [(js ''channel_binding'', js ''require'')],
             query = Some (js ''channel_binding=require''),
             other_components = js ''postgresql://u@h/db''\<rparr>
   \<and> getDatabaseUrl (example_world (Some neon_url)) = Inr (js ''postgresql://u@h/db?sslmode=require'')
   \<and> globalForPrisma_prisma initial_state = None
   \<and> prisma_module (example_world (Some neon_url)) initial_state =
       (Inr 0, \<lparr>globalForPrisma_prisma = Some 0,
                heap = [\<lparr>adapter = None, datasources_db_url = None,
                         datasourceUrl = Some (js ''postgresql://u@h/db?sslmode=require''),
                         log = [js ''error'']\<rparr>]\<rparr>)
   \<and> URL_parse (example_world (Some (js ''h/db?channel_binding=require&a=1'')))
       (trim (js ''h/db?channel_binding=require&a=1'')) = None
   \<and> getDatabaseUrl (example_world (Some (js ''h/db?channel_binding=require&a=1''))) =
       Inr (js ''h/db&a=1'')
   \<and> getDatabaseUrl (example_world (Some (js ''channel_binding=require&a=1''))) =
       Inr (js ''a=1'')
   \<and> getDatabaseUrl (example_world (Some (js '' h/db?a=1 ''))) = Inr (js ''h/db?a=1'')
   \<and> 0x26 \<notin> set (js ''require'')
   \<and> \<not> str_includes (js ''h/db?a=1&channel_binding'') (js ''&channel_binding='')
   \<and> \<not> str_includes (js ''h/db?a=1&channel_binding'') (js ''?channel_binding='')
   \<and> remove_separated_param (js ''h/db?a=1&channel_binding=require'') = js ''h/db?a=1''
   \<and> remove_separated_param (js ''h/db?a=1&channel_binding=require&b=2'') = js ''h/db?a=1&b=2''
   \<and> \<not> str_includes (js ''x=channel_binding'') (js ''channel_binding='')
   \<and> remove_leading_param (js ''x=channel_binding=require'') = js ''x=''
   \<and> remove_leading_param (js ''x=channel_binding=require&b=2'') = js ''x=b=2''
   \<and> \<not> str_includes (js ''h/db?a=1'') (js ''channel_binding='')
   \<and> remove_leading_param (js ''h/db?a=1'') = js ''h/db?a=1''
   \<and> remove_separated_param (js ''h/db?a=1'') = js ''h/db?a=1''"
  using neon_connection_string_is_rewritten [where w = "example_world (Some neon_url)"
      and url = neon_url and s = initial_state and t = "js ''h/db?a=1''"
      and pre = "js ''h/db?a=1''" and sep = "0x26" and v = "js ''require''" and r = "js ''b=2''"]
    neon_connection_string_is_rewritten [where w = "example_world (Some (js ''h/db?channel_binding=require&a=1''))"
      and url = "js ''h/db?channel_binding=require&a=1''" and s = initial_state
      and t = "js ''h/db?a=1''"
      and pre = "js ''x=''" and sep = "0x3F" and v = "js ''require''" and r = "js ''b=2''"]
  by (simp add: getDatabaseUrl_def prisma_module_def construct_def neon_options_def update_query_def
      searchParams_has_def searchParams_delete_def neon_url_def example_world_def initial_state_def
      trim_def isWhiteSpace_def js_def Let_def)

end
